theory Spec2Isabelle
  imports Main
begin

section \<open>Data model (App.tsx, lines 14-30)\<close>

text \<open>
  The three values of the type \<^verbatim>\<open>Screen\<close>: \<^verbatim>\<open>'input' | 'progress' | 'download'\<close>.
\<close>

datatype Screen = Input | Progress | Download

text \<open>The anonymous object type of \<^verbatim>\<open>JobData.result\<close>.\<close>

record ResultBundle =
  premiere_url :: string
  capcut_url :: string
  clips_count :: int
  images_count :: int
  expires_at :: string

text \<open>
  What \<^verbatim>\<open>checkStatus\<close> resolves to, with the fields the poll callback reads
  (lines 95-100). An optional field that is absent (\<^verbatim>\<open>undefined\<close>) is \<open>None\<close>.
\<close>

record StatusResponse =
  status :: string
  progress :: int
  current_step :: "string option"
  eta_seconds :: "int option"
  error :: "string option"
  result :: "ResultBundle option"

text \<open>The interface \<^verbatim>\<open>JobData\<close> (lines 16-30).\<close>

record JobData =
  jobId :: string
  status :: string
  progress :: int
  currentStep :: "string option"
  etaSeconds :: "int option"
  error :: "string option"
  result :: "ResultBundle option"

section \<open>JavaScript values the handlers compute with\<close>

text \<open>
  \<^verbatim>\<open>x || d\<close> on an optional string: \<^verbatim>\<open>undefined\<close> and the empty string are falsy.
\<close>

definition or_string :: "string option \<Rightarrow> string \<Rightarrow> string" where
  "or_string x d = (case x of None \<Rightarrow> d | Some s \<Rightarrow> if s = [] then d else s)"

text \<open>\<^verbatim>\<open>x || d\<close> on an optional number: \<^verbatim>\<open>undefined\<close> and \<^verbatim>\<open>0\<close> are falsy.\<close>

definition or_number :: "int option \<Rightarrow> int \<Rightarrow> int" where
  "or_number x d = (case x of None \<Rightarrow> d | Some n \<Rightarrow> if n = 0 then d else n)"

text \<open>
  The value of a property read on the object literal \<^verbatim>\<open>durationMap\<close>: a number
  of its own, or a member inherited from \<^verbatim>\<open>Object.prototype\<close> (a function or an
  object, named by its key).
\<close>

datatype js_value = Num int | Inherited string

fun truthy :: "js_value \<Rightarrow> bool" where
  "truthy (Num n) = (n \<noteq> 0)"
| "truthy (Inherited k) = True"

text \<open>The own properties of \<^verbatim>\<open>durationMap\<close> (lines 65-70).\<close>

definition durationMap :: "(string \<times> int) list" where
  "durationMap = [(''6-9'', 450), (''10-12'', 660), (''18-20'', 1140), (''30-40'', 2100)]"

text \<open>
  \<^verbatim>\<open>durationMap\<close> is an object literal, so its prototype is \<^verbatim>\<open>Object.prototype\<close>,
  and a read of a key it does not own finds the members of that object.
\<close>

definition Object_prototype :: "string list" where
  "Object_prototype =
     [''constructor'', ''__proto__'', ''hasOwnProperty'', ''isPrototypeOf'',
      ''propertyIsEnumerable'', ''toLocaleString'', ''toString'', ''valueOf'',
      ''__defineGetter__'', ''__defineSetter__'', ''__lookupGetter__'',
      ''__lookupSetter__'']"

text \<open>The read \<^verbatim>\<open>durationMap[duration]\<close>; \<open>None\<close> is \<^verbatim>\<open>undefined\<close>.\<close>

definition durationMap_get :: "string \<Rightarrow> js_value option" where
  "durationMap_get k =
     (case map_of durationMap k of
        Some n \<Rightarrow> Some (Num n)
      | None \<Rightarrow> if k \<in> set Object_prototype then Some (Inherited k) else None)"

text \<open>Line 72: \<^verbatim>\<open>const durationSeconds = durationMap[duration] || 2100\<close>.\<close>

definition durationSeconds :: "string \<Rightarrow> js_value" where
  "durationSeconds duration =
     (case durationMap_get duration of
        Some v \<Rightarrow> if truthy v then v else Num 2100
      | None \<Rightarrow> Num 2100)"

section \<open>State\<close>

text \<open>
  How an awaited remote call settles: it resolves to a value, or it rejects with an
  error whose \<^verbatim>\<open>message\<close> may be missing.
\<close>

datatype 'a settled = Resolved 'a | Rejected "string option"

text \<open>
  A remote call that has been issued and has not settled yet, with what its
  continuation has captured: \<^verbatim>\<open>generateVideo(script, durationSeconds, title)\<close>, or
  \<^verbatim>\<open>checkStatus(result.job_id)\<close> issued by the callback of the timer \<^verbatim>\<open>pollInterval\<close>.
\<close>

datatype call = GenerateVideo string js_value string | CheckStatus nat string

text \<open>
  The component's state (lines 33-36: \<^verbatim>\<open>currentScreen\<close>, \<^verbatim>\<open>jobData\<close>, \<^verbatim>\<open>error\<close>;
  \<^verbatim>\<open>user\<close> and \<^verbatim>\<open>inputData\<close> are never written) together with what the event loop
  holds for it: the live timers of \<^verbatim>\<open>setInterval\<close>, each with the \<^verbatim>\<open>job_id\<close> its
  callback has captured, the next timer handle, and the calls in flight.
\<close>

record App =
  currentScreen :: Screen
  jobData :: "JobData option"
  error :: string
  intervals :: "(nat \<times> string) list"
  nextHandle :: nat
  pending :: "call list"

definition App_init :: App where
  "App_init =
     \<lparr>currentScreen = Input, jobData = None, error = [], intervals = [],
      nextHandle = 1, pending = []\<rparr>"

definition setInterval :: "string \<Rightarrow> App \<Rightarrow> App" where
  "setInterval job_id st =
     st\<lparr>intervals := (nextHandle st, job_id) # intervals st,
        nextHandle := Suc (nextHandle st)\<rparr>"

definition clearInterval :: "nat \<Rightarrow> App \<Rightarrow> App" where
  "clearInterval pollInterval st =
     st\<lparr>intervals := filter (\<lambda>p. fst p \<noteq> pollInterval) (intervals st)\<rparr>"

definition issue :: "call \<Rightarrow> App \<Rightarrow> App" where
  "issue c st = st\<lparr>pending := c # pending st\<rparr>"

definition settle :: "call \<Rightarrow> App \<Rightarrow> App" where
  "settle c st = st\<lparr>pending := remove1 c (pending st)\<rparr>"

section \<open>The handlers\<close>

text \<open>
  \<^verbatim>\<open>handleInputSubmit\<close> up to its \<^verbatim>\<open>await generateVideo(...)\<close> (lines 61-75).
\<close>

definition handleInputSubmit_call :: "string \<Rightarrow> string \<Rightarrow> string \<Rightarrow> App \<Rightarrow> App" where
  "handleInputSubmit_call script duration title st =
     issue
       (GenerateVideo script (durationSeconds duration)
          (or_string (Some title) ''Untitled Video''))
       (st\<lparr>App.error := []\<rparr>)"

text \<open>
  \<^verbatim>\<open>handleInputSubmit\<close> from the point where \<^verbatim>\<open>generateVideo\<close> has settled:
  lines 77-118 when it resolved to \<^verbatim>\<open>result\<close> (here its \<^verbatim>\<open>job_id\<close>), the
  \<^verbatim>\<open>catch\<close> of lines 120-123 when it rejected.
\<close>

definition handleInputSubmit_resume :: "string settled \<Rightarrow> App \<Rightarrow> App" where
  "handleInputSubmit_resume out st =
     (case out of
        Resolved job_id \<Rightarrow>
          setInterval job_id
            (st\<lparr>jobData :=
                  Some \<lparr>jobId = job_id, status = ''queued'', progress = 0,
                        currentStep = Some ''Starting...'', etaSeconds = None,
                        error = None, result = None\<rparr>,
                currentScreen := Progress\<rparr>)
      | Rejected message \<Rightarrow>
          st\<lparr>App.error := or_string message ''Failed to start video generation''\<rparr>)"

text \<open>
  One whole run of \<^verbatim>\<open>handleInputSubmit\<close>, nothing else running between its two
  halves; \<open>out\<close> is how \<^verbatim>\<open>generateVideo\<close> settled.
\<close>

definition handleInputSubmit ::
  "string \<Rightarrow> string \<Rightarrow> string \<Rightarrow> string settled \<Rightarrow> App \<Rightarrow> App" where
  "handleInputSubmit script duration title out st =
     handleInputSubmit_resume out
       (settle
          (GenerateVideo script (durationSeconds duration)
             (or_string (Some title) ''Untitled Video''))
          (handleInputSubmit_call script duration title st))"

text \<open>
  The timer's callback from the point where \<^verbatim>\<open>checkStatus\<close> has settled
  (lines 93-114). \<open>pollInterval\<close> and \<open>job_id\<close> are what the closure captured.
\<close>

definition pollTick :: "nat \<Rightarrow> string \<Rightarrow> StatusResponse settled \<Rightarrow> App \<Rightarrow> App" where
  "pollTick pollInterval job_id out st =
     (case out of
        Resolved r \<Rightarrow>
          (let st1 =
             st\<lparr>jobData :=
                  Some \<lparr>jobId = job_id, status = StatusResponse.status r,
                        progress = StatusResponse.progress r,
                        currentStep = current_step r, etaSeconds = eta_seconds r,
                        error = StatusResponse.error r,
                        result = StatusResponse.result r\<rparr>\<rparr>
           in if StatusResponse.status r = ''completed''
              then (clearInterval pollInterval st1)\<lparr>currentScreen := Download\<rparr>
              else if StatusResponse.status r = ''failed''
              then (clearInterval pollInterval st1)
                     \<lparr>App.error :=
                        or_string (StatusResponse.error r) ''Video generation failed''\<rparr>
              else st1)
      | Rejected message \<Rightarrow> st)"

text \<open>\<^verbatim>\<open>handleCreateNew\<close> (lines 127-131).\<close>

definition handleCreateNew :: "App \<Rightarrow> App" where
  "handleCreateNew st = st\<lparr>jobData := None, App.error := [], currentScreen := Input\<rparr>"

section \<open>What is rendered (lines 133-169)\<close>

text \<open>
  The elements of the returned fragment, each with its props in the order of the
  source: \<^verbatim>\<open>ProgressScreen progress currentStep etaSeconds error\<close> and
  \<^verbatim>\<open>DownloadScreen jobId premiereUrl capcutUrl clipsCount imagesCount expiresAt\<close>
  (its \<^verbatim>\<open>onCreateNew\<close> is always \<^verbatim>\<open>handleCreateNew\<close>).
\<close>

datatype element =
    InputScreen
  | ProgressScreen int string int string
  | DownloadScreen string string string int int string

definition render :: "App \<Rightarrow> element list" where
  "render st =
     (if currentScreen st = Input then [InputScreen] else []) @
     (if currentScreen st = Progress
      then (case jobData st of
              None \<Rightarrow> []
            | Some jd \<Rightarrow>
                [ProgressScreen (JobData.progress jd)
                   (or_string (currentStep jd) ''Processing...'')
                   (or_number (etaSeconds jd) 0)
                   (App.error st)])
      else []) @
     (if currentScreen st = Download
      then (case jobData st of
              None \<Rightarrow> []
            | Some jd \<Rightarrow>
                (case JobData.result jd of
                   None \<Rightarrow> []
                 | Some res \<Rightarrow>
                     [DownloadScreen (jobId jd) (premiere_url res) (capcut_url res)
                        (clips_count res) (images_count res) (expires_at res)]))
      else [])"

section \<open>The event loop\<close>

text \<open>
  What can happen next: the input view calls \<^verbatim>\<open>onSubmit\<close>, a pending
  \<^verbatim>\<open>generateVideo\<close> settles, a live timer fires and its callback issues
  \<^verbatim>\<open>checkStatus\<close>, a pending \<^verbatim>\<open>checkStatus\<close> settles, or the download view calls
  \<^verbatim>\<open>onCreateNew\<close>.
\<close>

datatype event =
    Submit string string string
  | GenerateVideoSettles string js_value string "string settled"
  | IntervalFires nat
  | CheckStatusSettles nat string "StatusResponse settled"
  | CreateNew

text \<open>
  One event; \<open>None\<close> when it cannot happen in this state: a view that is not
  rendered calls nothing, a cleared timer does not fire, and only a call in flight
  settles.
\<close>

fun step :: "event \<Rightarrow> App \<Rightarrow> App option" where
  "step (Submit script duration title) st =
     (if InputScreen \<in> set (render st)
      then Some (handleInputSubmit_call script duration title st)
      else None)"
| "step (GenerateVideoSettles script seconds title out) st =
     (if GenerateVideo script seconds title \<in> set (pending st)
      then Some (handleInputSubmit_resume out
                   (settle (GenerateVideo script seconds title) st))
      else None)"
| "step (IntervalFires pollInterval) st =
     (case map_of (intervals st) pollInterval of
        None \<Rightarrow> None
      | Some job_id \<Rightarrow> Some (issue (CheckStatus pollInterval job_id) st))"
| "step (CheckStatusSettles pollInterval job_id out) st =
     (if CheckStatus pollInterval job_id \<in> set (pending st)
      then Some (pollTick pollInterval job_id out
                   (settle (CheckStatus pollInterval job_id) st))
      else None)"
| "step CreateNew st =
     (case render st of
        [DownloadScreen a b c d e f] \<Rightarrow> Some (handleCreateNew st)
      | _ \<Rightarrow> None)"

fun run :: "event list \<Rightarrow> App \<Rightarrow> App option" where
  "run [] st = Some st"
| "run (e # es) st = (case step e st of None \<Rightarrow> None | Some st' \<Rightarrow> run es st')"

text \<open>
  One poll tick of the timer \<open>pollInterval\<close>: it fires, and the fetch it issued
  settles before anything else happens.
\<close>

definition tick :: "nat \<Rightarrow> string \<Rightarrow> StatusResponse settled \<Rightarrow> event list" where
  "tick pollInterval job_id out =
     [IntervalFires pollInterval, CheckStatusSettles pollInterval job_id out]"

definition ticks :: "nat \<Rightarrow> string \<Rightarrow> StatusResponse settled list \<Rightarrow> event list" where
  "ticks pollInterval job_id outs = concat (map (tick pollInterval job_id) outs)"

text \<open>
  A settled fetch after which the callback neither clears its timer nor changes the
  screen: a rejected one, or a response whose status is neither of the two literals
  compared at lines 104 and 107.
\<close>

definition keeps_polling :: "StatusResponse settled \<Rightarrow> bool" where
  "keeps_polling out =
     (case out of
        Resolved r \<Rightarrow>
          StatusResponse.status r \<noteq> ''completed'' \<and> StatusResponse.status r \<noteq> ''failed''
      | Rejected message \<Rightarrow> True)"

text \<open>The \<^verbatim>\<open>checkStatus\<close> calls in flight, each with its timer and \<^verbatim>\<open>job_id\<close>.\<close>

definition fetches :: "App \<Rightarrow> (nat \<times> string) list" where
  "fetches st = [(h, j). CheckStatus h j \<leftarrow> pending st]"

text \<open>
  Every live timer and every fetch in flight belongs to a timer whose handle is at
  least \<open>n\<close>, and so will every timer started from now on.
\<close>

definition started_after :: "nat \<Rightarrow> App \<Rightarrow> bool" where
  "started_after n st =
     (n \<le> nextHandle st \<and> list_all (\<lambda>p. n \<le> fst p) (intervals st) \<and>
      list_all (\<lambda>p. n \<le> fst p) (fetches st))"

section \<open>Basic facts\<close>

lemmas handler_defs =
  handleInputSubmit_call_def handleInputSubmit_resume_def pollTick_def handleCreateNew_def
  setInterval_def clearInterval_def issue_def settle_def

lemma run_append:
  "run (es @ es') st = (case run es st of None \<Rightarrow> None | Some st' \<Rightarrow> run es' st')"
  by (induction es arbitrary: st) (auto split: option.splits)

lemma run_invariant:
  assumes "\<And>e s s'. P s \<Longrightarrow> step e s = Some s' \<Longrightarrow> P s'"
  shows "P st \<Longrightarrow> run es st = Some st' \<Longrightarrow> P st'"
proof (induction es arbitrary: st)
  case Nil
  then show ?case by simp
next
  case (Cons e es)
  from Cons.prems(2) obtain s where s: "step e st = Some s" "run es s = Some st'"
    by (auto split: option.splits)
  from assms [OF Cons.prems(1) s(1)] Cons.IH s(2) show ?case
    by blast
qed

lemma settle_issue: "settle c (issue c st) = st"
  by (simp add: settle_def issue_def)

lemma handleInputSubmit_eq:
  "handleInputSubmit script duration title out st =
     handleInputSubmit_resume out (st\<lparr>App.error := []\<rparr>)"
  by (simp add: handleInputSubmit_def handleInputSubmit_call_def issue_def settle_def)

text \<open>
  The two halves of \<^verbatim>\<open>handleInputSubmit\<close>, run as events from the input view with
  nothing between them, are \<open>handleInputSubmit\<close>.
\<close>

lemma run_handleInputSubmit:
  "currentScreen st = Input \<Longrightarrow>
   run [Submit script duration title,
        GenerateVideoSettles script (durationSeconds duration)
          (or_string (Some title) ''Untitled Video'') out] st =
     Some (handleInputSubmit script duration title out st)"
  by (simp add: render_def handleInputSubmit_def) (simp add: handleInputSubmit_call_def issue_def)

lemma run_tick:
  "map_of (intervals st) h = Some j \<Longrightarrow> run (tick h j out) st = Some (pollTick h j out st)"
  by (simp add: tick_def settle_issue) (simp add: issue_def)

lemma ticks_Cons: "ticks h j (out # outs) = tick h j out @ ticks h j outs"
  by (simp add: ticks_def)

lemma ticks_append: "ticks h j (outs @ outs') = ticks h j outs @ ticks h j outs'"
  by (simp add: ticks_def)

lemma pollTick_Rejected: "pollTick h j (Rejected m) st = st"
  by (simp add: pollTick_def)

lemma map_of_filter_fst:
  "map_of (filter (\<lambda>p. fst p \<noteq> h') xs) h = (if h = h' then None else map_of xs h)"
  by (induction xs) auto

section \<open>The duration table\<close>

lemma durationSeconds_table:
  "durationSeconds ''6-9'' = Num 450 \<and> durationSeconds ''10-12'' = Num 660 \<and>
   durationSeconds ''18-20'' = Num 1140 \<and> durationSeconds ''30-40'' = Num 2100 \<and>
   durationSeconds ''anything-else'' = Num 2100"
  by (simp add: durationSeconds_def durationMap_get_def durationMap_def Object_prototype_def)

lemma durationSeconds_default:
  "map_of durationMap duration = None \<Longrightarrow> duration \<notin> set Object_prototype \<Longrightarrow>
   durationSeconds duration = Num 2100"
  by (simp add: durationSeconds_def durationMap_get_def)

text \<open>
  C8. The four labels of the table resolve to 450, 660, 1140 and 2100, and a label that is
  neither in the table nor the name of a member of \<^verbatim>\<open>Object.prototype\<close> resolves to 2100
  (the two lemmas above). The label \<^verbatim>\<open>constructor\<close> is not in the table, and the read
  \<^verbatim>\<open>durationMap['constructor']\<close> finds the inherited, truthy constructor function, so
  \<^verbatim>\<open>|| 2100\<close> does not apply: the resolver returns that function, not 2100.
\<close>

theorem durationSeconds_constructor:
  "durationSeconds ''constructor'' = Inherited ''constructor'' \<and>
   durationSeconds ''constructor'' \<noteq> Num 2100"
  by (simp add: durationSeconds_def durationMap_get_def durationMap_def Object_prototype_def)

section \<open>Submission\<close>

text \<open>
  One run of \<^verbatim>\<open>handleInputSubmit\<close> in which \<^verbatim>\<open>generateVideo\<close> resolves with \<open>job_id\<close>
  and nothing else runs between the two halves.
\<close>

lemma handleInputSubmit_resolved:
  "jobData (handleInputSubmit script duration title (Resolved job_id) st) =
     Some \<lparr>jobId = job_id, status = ''queued'', progress = 0,
           currentStep = Some ''Starting...'', etaSeconds = None, error = None,
           result = None\<rparr> \<and>
   App.error (handleInputSubmit script duration title (Resolved job_id) st) = [] \<and>
   currentScreen (handleInputSubmit script duration title (Resolved job_id) st) = Progress \<and>
   intervals (handleInputSubmit script duration title (Resolved job_id) st) =
     (nextHandle st, job_id) # intervals st \<and>
   step (IntervalFires (nextHandle st))
     (handleInputSubmit script duration title (Resolved job_id) st) =
     Some (issue (CheckStatus (nextHandle st) job_id)
             (handleInputSubmit script duration title (Resolved job_id) st))"
  by (simp add: handleInputSubmit_eq handleInputSubmit_resume_def setInterval_def)

text \<open>
  C3 (as amended). An invocation of \<^verbatim>\<open>handleInputSubmit\<close> empties the error message
  when it is called and issues \<^verbatim>\<open>generateVideo\<close>, changing nothing else. When that
  call resolves with \<open>job_id\<close>, the job record becomes
  \<open>{jobId, status 'queued', progress 0, currentStep 'Starting...'}\<close> with every other
  field absent, the screen becomes \<open>Progress\<close>, and one new timer bound to \<open>job_id\<close>
  is started: it is live, and when it fires it issues the status fetch for \<open>job_id\<close>.
  The continuation does not write the error message: it is what it was just before the
  call resolved, so it is empty when nothing wrote it while the call was pending, as in
  a run from the input screen with nothing in between.
\<close>

theorem handleInputSubmit_success:
  "(step (Submit script duration title) st = Some st1 \<longrightarrow>
      App.error st1 = [] \<and>
      pending st1 =
        GenerateVideo script (durationSeconds duration)
          (or_string (Some title) ''Untitled Video'') # pending st \<and>
      jobData st1 = jobData st \<and> currentScreen st1 = currentScreen st \<and>
      intervals st1 = intervals st) \<and>
   (step (GenerateVideoSettles script seconds title' (Resolved job_id)) s = Some s' \<longrightarrow>
      jobData s' =
        Some \<lparr>jobId = job_id, status = ''queued'', progress = 0,
              currentStep = Some ''Starting...'', etaSeconds = None, error = None,
              result = None\<rparr> \<and>
      currentScreen s' = Progress \<and>
      App.error s' = App.error s \<and>
      intervals s' = (nextHandle s, job_id) # intervals s \<and>
      step (IntervalFires (nextHandle s)) s' =
        Some (issue (CheckStatus (nextHandle s) job_id) s')) \<and>
   (currentScreen s0 = Input \<longrightarrow>
      run [Submit script duration title,
           GenerateVideoSettles script (durationSeconds duration)
             (or_string (Some title) ''Untitled Video'') (Resolved job_id)] s0 =
        Some (handleInputSubmit script duration title (Resolved job_id) s0) \<and>
      App.error (handleInputSubmit script duration title (Resolved job_id) s0) = [])"
proof -
  have call: "App.error st1 = [] \<and>
      pending st1 =
        GenerateVideo script (durationSeconds duration)
          (or_string (Some title) ''Untitled Video'') # pending st \<and>
      jobData st1 = jobData st \<and> currentScreen st1 = currentScreen st \<and>
      intervals st1 = intervals st"
    if "step (Submit script duration title) st = Some st1"
    using that by (auto simp: handleInputSubmit_call_def issue_def split: if_splits)
  have resume: "jobData s' =
        Some \<lparr>jobId = job_id, status = ''queued'', progress = 0,
              currentStep = Some ''Starting...'', etaSeconds = None, error = None,
              result = None\<rparr> \<and>
      currentScreen s' = Progress \<and>
      App.error s' = App.error s \<and>
      intervals s' = (nextHandle s, job_id) # intervals s \<and>
      step (IntervalFires (nextHandle s)) s' =
        Some (issue (CheckStatus (nextHandle s) job_id) s')"
    if "step (GenerateVideoSettles script seconds title' (Resolved job_id)) s = Some s'"
    using that
    by (auto simp: handleInputSubmit_resume_def setInterval_def settle_def split: if_splits)
  have whole: "run [Submit script duration title,
           GenerateVideoSettles script (durationSeconds duration)
             (or_string (Some title) ''Untitled Video'') (Resolved job_id)] s0 =
        Some (handleInputSubmit script duration title (Resolved job_id) s0) \<and>
      App.error (handleInputSubmit script duration title (Resolved job_id) s0) = []"
    if "currentScreen s0 = Input"
    using run_handleInputSubmit [OF that, of script duration title "Resolved job_id"]
    by (simp add: handleInputSubmit_eq handleInputSubmit_resume_def setInterval_def)
  from call resume whole show ?thesis
    by blast
qed


section \<open>The progress view\<close>

text \<open>
  C10. When the screen is \<open>Progress\<close> and a job record is present, exactly the progress
  view is rendered, and it receives the record's \<open>progress\<close> as it is, the record's
  \<open>currentStep\<close> or \<open>'Processing...'\<close> when that is absent (or empty), the record's
  \<open>etaSeconds\<close> or \<open>0\<close> when that is absent, and the current error message.
\<close>

theorem render_progress:
  "currentScreen st = Progress \<Longrightarrow> jobData st = Some jd \<Longrightarrow>
   render st =
     [ProgressScreen (JobData.progress jd)
        (case currentStep jd of
           None \<Rightarrow> ''Processing...''
         | Some s \<Rightarrow> if s = [] then ''Processing...'' else s)
        (case etaSeconds jd of None \<Rightarrow> 0 | Some n \<Rightarrow> n)
        (App.error st)]"
  by (simp add: render_def or_string_def or_number_def split: option.splits)

theorem render_progress_witness:
  "render \<lparr>currentScreen = Progress,
       jobData = Some \<lparr>jobId = ''j1'', status = ''processing'', progress = 40,
                       currentStep = None, etaSeconds = None, error = None,
                       result = None\<rparr>,
       error = ''e'', intervals = [(1, ''j1'')], nextHandle = 2, pending = []\<rparr> =
     [ProgressScreen 40 ''Processing...'' 0 ''e'']"
  using render_progress
    [of "\<lparr>currentScreen = Progress,
       jobData = Some \<lparr>jobId = ''j1'', status = ''processing'', progress = 40,
                       currentStep = None, etaSeconds = None, error = None,
                       result = None\<rparr>,
       error = ''e'', intervals = [(1, ''j1'')], nextHandle = 2, pending = []\<rparr>"
      "\<lparr>jobId = ''j1'', status = ''processing'', progress = 40,
                       currentStep = None, etaSeconds = None, error = None,
                       result = None\<rparr>"]
  by simp

section \<open>The polling loop\<close>

lemma pollTick_keeps_polling:
  "keeps_polling out \<Longrightarrow>
   currentScreen (pollTick h j out st) = currentScreen st \<and>
   App.error (pollTick h j out st) = App.error st \<and>
   intervals (pollTick h j out st) = intervals st"
  by (cases out) (simp_all add: keeps_polling_def pollTick_def Let_def)

lemma run_ticks_keeps_polling:
  "list_all keeps_polling outs \<Longrightarrow> map_of (intervals st) h = Some j \<Longrightarrow>
   \<exists>st'. run (ticks h j outs) st = Some st' \<and> currentScreen st' = currentScreen st \<and>
     App.error st' = App.error st \<and> intervals st' = intervals st"
proof (induction outs arbitrary: st)
  case Nil
  then show ?case by (simp add: ticks_def)
next
  case (Cons out outs)
  let ?s = "pollTick h j out st"
  from Cons.prems have nt: "keeps_polling out" and rest: "list_all keeps_polling outs"
    by simp_all
  have same: "currentScreen ?s = currentScreen st" "App.error ?s = App.error st"
    "intervals ?s = intervals st"
    using pollTick_keeps_polling [OF nt, of h j st] by simp_all
  with Cons.prems have live: "map_of (intervals ?s) h = Some j" by simp
  from Cons.IH [OF rest live] obtain st' where
    "run (ticks h j outs) ?s = Some st'" "currentScreen st' = currentScreen ?s"
    "App.error st' = App.error ?s" "intervals st' = intervals ?s"
    by blast
  with same Cons.prems(2) show ?case
    by (simp add: ticks_Cons run_append run_tick)
qed

lemma run_ticks_Rejected:
  "map_of (intervals st) h = Some j \<Longrightarrow> run (ticks h j (map Rejected ms)) st = Some st"
  by (induction ms) (simp_all add: ticks_def run_append run_tick pollTick_Rejected)

lemma step_jobData_Input:
  "jobData st = None \<longrightarrow> currentScreen st = Input \<Longrightarrow> step e st = Some st' \<Longrightarrow>
   jobData st' = None \<longrightarrow> currentScreen st' = Input"
  by (cases e)
    (auto simp: handler_defs Let_def
      split: if_splits option.splits settled.splits list.splits element.splits)

lemma pollTick_completed:
  "StatusResponse.status r = ''completed'' \<Longrightarrow>
   currentScreen (pollTick h j (Resolved r) st) = Download \<and>
   render (pollTick h j (Resolved r) st) =
     (case StatusResponse.result r of
        None \<Rightarrow> []
      | Some res \<Rightarrow>
          [DownloadScreen j (premiere_url res) (capcut_url res) (clips_count res)
             (images_count res) (expires_at res)])"
  by (simp add: pollTick_def clearInterval_def render_def split: option.splits)

lemma render_DownloadScreen:
  assumes "DownloadScreen a b c d e f \<in> set (render st)"
  shows "currentScreen st = Download \<and>
      (\<exists>jd res. jobData st = Some jd \<and> JobData.result jd = Some res)"
proof (cases "jobData st")
  case None
  with assms show ?thesis by (cases "currentScreen st") (simp_all add: render_def)
next
  case (Some jd)
  with assms show ?thesis
    by (cases "currentScreen st"; cases "JobData.result jd") (simp_all add: render_def)
qed

text \<open>
  C1 (as amended). In every state reachable from the initial one, screen \<open>Download\<close>
  implies that a job record is present; the download view is rendered only when the
  screen is \<open>Download\<close> and the record's result is present. After a successful
  submission, for every sequence of ticks of its timer whose fetches fail or carry a
  status other than \<open>'completed'\<close> and \<open>'failed'\<close>, followed by one with status
  \<open>'completed'\<close>: the screen is \<open>Progress\<close> after each earlier tick and \<open>Download\<close>
  after the last, whether or not that response carries a result; the download view is
  rendered then exactly when it does.
\<close>

theorem download_reached:
  "(run es App_init = Some st \<longrightarrow> currentScreen st = Download \<longrightarrow> jobData st \<noteq> None) \<and>
   (DownloadScreen a b c d e f \<in> set (render st) \<longrightarrow>
      currentScreen st = Download \<and>
      (\<exists>jd res. jobData st = Some jd \<and> JobData.result jd = Some res)) \<and>
   (list_all keeps_polling outs \<and> StatusResponse.status r = ''completed'' \<longrightarrow>
      (\<forall>n \<le> length outs.
         map_option currentScreen
           (run (ticks (nextHandle st0) j (take n outs))
              (handleInputSubmit script duration title (Resolved j) st0)) = Some Progress) \<and>
      map_option currentScreen
        (run (ticks (nextHandle st0) j (outs @ [Resolved r]))
           (handleInputSubmit script duration title (Resolved j) st0)) = Some Download \<and>
      map_option render
        (run (ticks (nextHandle st0) j (outs @ [Resolved r]))
           (handleInputSubmit script duration title (Resolved j) st0)) =
        Some (case StatusResponse.result r of
                None \<Rightarrow> []
              | Some res \<Rightarrow>
                  [DownloadScreen j (premiere_url res) (capcut_url res) (clips_count res)
                     (images_count res) (expires_at res)]))"
proof -
  let ?h = "nextHandle st0"
  let ?s0 = "handleInputSubmit script duration title (Resolved j) st0"
  have inv: "currentScreen st = Download \<longrightarrow> jobData st \<noteq> None"
    if "run es App_init = Some st"
  proof -
    have "jobData App_init = None \<longrightarrow> currentScreen App_init = Input"
      by (simp add: App_init_def)
    then have "jobData st = None \<longrightarrow> currentScreen st = Input"
      using that
      by (rule run_invariant [where P = "\<lambda>s. jobData s = None \<longrightarrow> currentScreen s = Input",
            rotated]) (rule step_jobData_Input)
    then show ?thesis by auto
  qed
  have guard: "currentScreen st = Download \<and>
      (\<exists>jd res. jobData st = Some jd \<and> JobData.result jd = Some res)"
    if "DownloadScreen a b c d e f \<in> set (render st)"
    using that by (rule render_DownloadScreen)
  have live: "map_of (intervals ?s0) ?h = Some j" and prog: "currentScreen ?s0 = Progress"
    by (simp_all add: handleInputSubmit_eq handleInputSubmit_resume_def setInterval_def)
  have seq: "(\<forall>n \<le> length outs.
         map_option currentScreen (run (ticks ?h j (take n outs)) ?s0) = Some Progress) \<and>
      map_option currentScreen (run (ticks ?h j (outs @ [Resolved r])) ?s0) = Some Download \<and>
      map_option render (run (ticks ?h j (outs @ [Resolved r])) ?s0) =
        Some (case StatusResponse.result r of
                None \<Rightarrow> []
              | Some res \<Rightarrow>
                  [DownloadScreen j (premiere_url res) (capcut_url res) (clips_count res)
                     (images_count res) (expires_at res)])"
    if nt: "list_all keeps_polling outs" and compl: "StatusResponse.status r = ''completed''"
  proof -
    have early: "map_option currentScreen (run (ticks ?h j (take n outs)) ?s0) = Some Progress"
      for n
    proof -
      from nt have "list_all keeps_polling (take n outs)"
        by (auto simp: list_all_iff dest: in_set_takeD)
      from run_ticks_keeps_polling [OF this live] prog show ?thesis
        by auto
    qed
    from run_ticks_keeps_polling [OF nt live] obtain s where
      s: "run (ticks ?h j outs) ?s0 = Some s" "intervals s = intervals ?s0"
      by blast
    with live have "map_of (intervals s) ?h = Some j" by simp
    then have "run (ticks ?h j [Resolved r]) s = Some (pollTick ?h j (Resolved r) s)"
      by (simp add: ticks_def run_tick)
    with s(1) have "run (ticks ?h j (outs @ [Resolved r])) ?s0 =
        Some (pollTick ?h j (Resolved r) s)"
      by (simp add: ticks_append run_append)
    with pollTick_completed [OF compl, of ?h j s] early show ?thesis
      by simp
  qed
  from inv guard seq show ?thesis
    by blast
qed

lemma run_tick_jobId:
  "run (tick h j out) st = Some st' \<Longrightarrow> map_option jobId (jobData st) = Some j \<Longrightarrow>
   map_option jobId (jobData st') = Some j"
  by (cases out)
    (auto simp: tick_def pollTick_def issue_def settle_def clearInterval_def Let_def
      split: option.splits if_splits)

lemma run_ticks_jobId:
  "run (ticks h j outs) st = Some st' \<Longrightarrow> map_option jobId (jobData st) = Some j \<Longrightarrow>
   map_option jobId (jobData st') = Some j"
proof (induction outs arbitrary: st)
  case Nil
  then show ?case by (simp add: ticks_def)
next
  case (Cons out outs)
  from Cons.prems(1) obtain s where s: "run (tick h j out) st = Some s"
    "run (ticks h j outs) s = Some st'"
    by (auto simp: ticks_Cons run_append split: option.splits)
  from run_tick_jobId [OF s(1) Cons.prems(2)] Cons.IH [OF s(2)] show ?case
    by blast
qed

text \<open>
  C7. Whatever the job record was, after a tick whose fetch resolved it is exactly the
  response's fields with the \<open>job_id\<close> the callback captured: a field absent in the
  response is absent in the record. From a successful submission on, after every
  sequence of ticks of its timer the record's \<open>jobId\<close> is the one of the submission.
\<close>

theorem pollTick_replaces_jobData:
  "jobData (pollTick h j (Resolved r) st) =
     Some \<lparr>jobId = j, status = StatusResponse.status r,
           progress = StatusResponse.progress r, currentStep = current_step r,
           etaSeconds = eta_seconds r, error = StatusResponse.error r,
           result = StatusResponse.result r\<rparr> \<and>
   (run (ticks (nextHandle st) j outs)
      (handleInputSubmit script duration title (Resolved j) st) = Some st' \<longrightarrow>
    map_option jobId (jobData st') = Some j)"
proof -
  have "map_option jobId
      (jobData (handleInputSubmit script duration title (Resolved j) st)) = Some j"
    by (simp add: handleInputSubmit_eq handleInputSubmit_resume_def setInterval_def)
  then have "map_option jobId (jobData st') = Some j"
    if "run (ticks (nextHandle st) j outs)
      (handleInputSubmit script duration title (Resolved j) st) = Some st'"
    using run_ticks_jobId [OF that] by simp
  then show ?thesis
    by (simp add: pollTick_def Let_def clearInterval_def)
qed

text \<open>
  C9. A tick whose fetch resolved with a status that is neither the string \<open>'completed'\<close>
  nor the string \<open>'failed'\<close> leaves the screen, the error message and the live timers as
  they were; the timer of the tick fires again exactly if it was live before, and then
  issues the next fetch.
\<close>

theorem pollTick_other_status:
  assumes "StatusResponse.status r \<noteq> ''completed''"
    and "StatusResponse.status r \<noteq> ''failed''"
  shows "currentScreen (pollTick h j (Resolved r) st) = currentScreen st \<and>
    App.error (pollTick h j (Resolved r) st) = App.error st \<and>
    intervals (pollTick h j (Resolved r) st) = intervals st \<and>
    step (IntervalFires h) (pollTick h j (Resolved r) st) =
      map_option (\<lambda>job_id. issue (CheckStatus h job_id) (pollTick h j (Resolved r) st))
        (map_of (intervals st) h)"
  using assms by (simp add: pollTick_def split: option.splits)

text \<open>
  C6. With the timer live, any number of ticks whose fetch is rejected leaves the whole
  state as it was: the timer is still live, nothing counts the failures, the screen and
  the error message are unchanged. A following tick whose fetch resolves with status
  \<open>'processing'\<close> happens, and changes only the job record, to the response's fields.
\<close>

theorem transient_failures_then_processing:
  assumes "map_of (intervals st) h = Some j"
    and "StatusResponse.status r = ''processing''"
  shows "run (ticks h j (map Rejected ms)) st = Some st \<and>
    run (ticks h j (map Rejected ms @ [Resolved r])) st =
      Some (st\<lparr>jobData :=
                 Some \<lparr>jobId = j, status = StatusResponse.status r,
                       progress = StatusResponse.progress r, currentStep = current_step r,
                       etaSeconds = eta_seconds r, error = StatusResponse.error r,
                       result = StatusResponse.result r\<rparr>\<rparr>)"
proof -
  have fails: "run (ticks h j (map Rejected ms)) st = Some st"
    using assms(1) by (rule run_ticks_Rejected)
  have last: "run (ticks h j [Resolved r]) st = Some (pollTick h j (Resolved r) st)"
    using assms(1) by (simp add: ticks_def run_tick)
  with fails assms(2) show ?thesis
    by (simp add: ticks_append run_append pollTick_def)
qed

lemma step_intervals:
  "step e st = Some st' \<Longrightarrow> h < nextHandle st \<Longrightarrow> map_of (intervals st) h = None \<Longrightarrow>
   h < nextHandle st' \<and> map_of (intervals st') h = None"
  by (cases e)
    (auto simp: handler_defs Let_def map_of_filter_fst
      split: if_splits option.splits settled.splits list.splits element.splits)

lemma run_intervals:
  "run es st = Some st' \<Longrightarrow> h < nextHandle st \<Longrightarrow> map_of (intervals st) h = None \<Longrightarrow>
   h < nextHandle st' \<and> map_of (intervals st') h = None"
proof (induction es arbitrary: st)
  case Nil
  then show ?case by simp
next
  case (Cons e es)
  from Cons.prems(1) obtain s where s: "step e st = Some s" "run es s = Some st'"
    by (auto split: option.splits)
  from step_intervals [OF s(1) Cons.prems(2,3)] Cons.IH [OF s(2)] show ?case
    by blast
qed

text \<open>
  C4. A tick whose fetch resolved with status \<open>'failed'\<close> clears its timer: the timer
  does not fire in the state after the tick, and, its handle being one that was handed
  out, in no state that follows, so it issues no further fetch. The error message
  becomes the response's \<open>error\<close>, or \<open>'Video generation failed'\<close> when that is absent
  or empty (what \<^verbatim>\<open>status.error || ...\<close> takes as none). The screen is the one before.
\<close>

theorem pollTick_failed:
  assumes "StatusResponse.status r = ''failed''"
  shows "intervals (pollTick h j (Resolved r) st) =
      filter (\<lambda>p. fst p \<noteq> h) (intervals st) \<and>
    step (IntervalFires h) (pollTick h j (Resolved r) st) = None \<and>
    (\<forall>es st'. h < nextHandle st \<longrightarrow> run es (pollTick h j (Resolved r) st) = Some st' \<longrightarrow>
       step (IntervalFires h) st' = None) \<and>
    App.error (pollTick h j (Resolved r) st) =
      (case StatusResponse.error r of
         None \<Rightarrow> ''Video generation failed''
       | Some e \<Rightarrow> if e = [] then ''Video generation failed'' else e) \<and>
    currentScreen (pollTick h j (Resolved r) st) = currentScreen st"
proof -
  let ?s = "pollTick h j (Resolved r) st"
  have iv: "intervals ?s = filter (\<lambda>p. fst p \<noteq> h) (intervals st)"
    and nh: "nextHandle ?s = nextHandle st"
    and err: "App.error ?s = or_string (StatusResponse.error r) ''Video generation failed''"
    and scr: "currentScreen ?s = currentScreen st"
    using assms by (simp_all add: pollTick_def clearInterval_def)
  have dead: "map_of (intervals ?s) h = None"
    by (simp add: iv map_of_filter_fst)
  have later: "step (IntervalFires h) st' = None"
    if "h < nextHandle st" "run es ?s = Some st'" for es st'
    using run_intervals [OF that(2), of h] that(1) dead nh by simp
  from iv dead later err scr show ?thesis
    by (simp add: or_string_def)
qed

section \<open>Reset\<close>

lemma started_after_iff:
  "started_after n st \<longleftrightarrow>
     n \<le> nextHandle st \<and> (\<forall>p \<in> set (intervals st). n \<le> fst p) \<and>
     (\<forall>c \<in> set (pending st). case c of CheckStatus h j \<Rightarrow> n \<le> h | GenerateVideo s d t \<Rightarrow> True)"
  by (auto simp: started_after_def list_all_iff fetches_def split: call.splits)

lemma started_after_frame:
  "intervals st' = intervals st \<Longrightarrow> pending st' = pending st \<Longrightarrow>
   nextHandle st' = nextHandle st \<Longrightarrow> started_after n st' = started_after n st"
  by (simp add: started_after_iff)

lemma started_after_settle: "started_after n st \<Longrightarrow> started_after n (settle c st)"
  by (auto simp: started_after_iff settle_def dest: notin_set_remove1)

lemma started_after_resume:
  "started_after n st \<Longrightarrow> started_after n (handleInputSubmit_resume out st)"
  by (cases out) (auto simp: started_after_iff handleInputSubmit_resume_def setInterval_def)

lemma started_after_pollTick:
  "started_after n st \<Longrightarrow> started_after n (pollTick h j out st)"
  by (cases out) (auto simp: started_after_iff pollTick_def clearInterval_def Let_def)

lemma step_started_after:
  assumes "started_after n st" and "step e st = Some st'"
  shows "started_after n st'"
proof (cases e)
  case (Submit script duration title)
  with assms show ?thesis
    by (auto simp: started_after_iff handleInputSubmit_call_def issue_def split: if_splits)
next
  case (GenerateVideoSettles script seconds title out)
  with assms show ?thesis
    by (auto simp: started_after_resume started_after_settle split: if_splits)
next
  case (IntervalFires h)
  with assms(2) obtain j where j: "map_of (intervals st) h = Some j"
    and st': "st' = issue (CheckStatus h j) st"
    by (auto split: option.splits)
  from j have "(h, j) \<in> set (intervals st)" by (rule map_of_SomeD)
  with assms(1) have "n \<le> h" by (auto simp: started_after_iff)
  with assms(1) st' show ?thesis
    by (simp add: started_after_iff issue_def)
next
  case (CheckStatusSettles h j out)
  with assms show ?thesis
    by (auto simp: started_after_pollTick started_after_settle split: if_splits)
next
  case CreateNew
  with assms have "st' = handleCreateNew st"
    by (auto split: list.splits element.splits)
  with assms(1) show ?thesis
    by (simp add: started_after_iff handleCreateNew_def)
qed

lemma started_after_no_tick:
  assumes "started_after n st" and "h < n"
  shows "step (IntervalFires h) st = None \<and> step (CheckStatusSettles h j out) st = None"
proof -
  have "map_of (intervals st) h = None"
  proof (cases "map_of (intervals st) h")
    case (Some j')
    then have "(h, j') \<in> set (intervals st)" by (rule map_of_SomeD)
    with assms show ?thesis by (auto simp: started_after_iff)
  qed simp
  moreover have "CheckStatus h j \<notin> set (pending st)"
    using assms by (auto simp: started_after_iff)
  ultimately show ?thesis by simp
qed

text \<open>
  C2 (as amended). From every state, \<^verbatim>\<open>handleCreateNew\<close> leaves the job record \<open>null\<close>,
  the error message empty and the screen \<open>Input\<close>. It clears no timer and discards no
  fetch in flight: the live timers and the pending calls are what they were. So ticks of
  an earlier session are excluded afterwards only when nothing of it is left at the
  reset: if then no timer is live and no status fetch is in flight, no timer started
  before the reset ever fires and no fetch of such a timer ever settles, whatever happens
  later.
\<close>

theorem handleCreateNew_reset:
  "jobData (handleCreateNew st) = None \<and> App.error (handleCreateNew st) = [] \<and>
   currentScreen (handleCreateNew st) = Input \<and>
   intervals (handleCreateNew st) = intervals st \<and>
   pending (handleCreateNew st) = pending st \<and>
   (intervals st = [] \<and> fetches st = [] \<longrightarrow>
      (\<forall>es st' h j out. h < nextHandle st \<longrightarrow> run es (handleCreateNew st) = Some st' \<longrightarrow>
         step (IntervalFires h) st' = None \<and> step (CheckStatusSettles h j out) st' = None))"
proof -
  have quiet: "step (IntervalFires h) st' = None \<and> step (CheckStatusSettles h j out) st' = None"
    if "intervals st = []" "fetches st = []" "h < nextHandle st"
      "run es (handleCreateNew st) = Some st'" for es st' h j out
  proof -
    have "fetches (handleCreateNew st) = fetches st"
      by (simp add: fetches_def handleCreateNew_def)
    with that(1,2) have "started_after (nextHandle st) (handleCreateNew st)"
      by (simp add: started_after_def) (simp add: handleCreateNew_def)
    then have "started_after (nextHandle st) st'"
      using that(4) by (rule run_invariant [rotated]) (rule step_started_after)
    then show ?thesis using that(3) by (rule started_after_no_tick)
  qed
  then show ?thesis
    by (simp add: handleCreateNew_def)
qed

section \<open>Runs on concrete inputs\<close>

lemmas eval_defs =
  handler_defs handleInputSubmit_def tick_def ticks_def render_def or_string_def or_number_def
  durationSeconds_def durationMap_get_def durationMap_def Object_prototype_def App_init_def
  keeps_polling_def fetches_def

text \<open>
  A session whose first status response is \<open>'completed'\<close> without a result: the screen is \<open>Download\<close> and the record has no result.
\<close>

theorem download_without_result:
  "run [Submit ''s'' ''6-9'' ''t'', GenerateVideoSettles ''s'' (Num 450) ''t'' (Resolved ''j1''),
        IntervalFires 1,
        CheckStatusSettles 1 ''j1''
          (Resolved \<lparr>StatusResponse.status = ''completed'', progress = 100, current_step = None,
        eta_seconds = None, error = None, result = None\<rparr>)]
     App_init =
   Some \<lparr>currentScreen = Download,
      jobData = Some \<lparr>jobId = ''j1'', status = ''completed'', progress = 100, currentStep = None,
        etaSeconds = None, error = None, result = None\<rparr>,
      error = [], intervals = [], nextHandle = 2, pending = []\<rparr>"
  by (simp add: eval_defs)

text \<open>
  A completed session with a result, and a poll sequence of a failed fetch, a \<open>'processing'\<close> response and the \<open>'completed'\<close> one.
\<close>

theorem download_reached_witness:
  "run [Submit ''s'' ''6-9'' ''t'', GenerateVideoSettles ''s'' (Num 450) ''t'' (Resolved ''j1''),
        IntervalFires 1,
        CheckStatusSettles 1 ''j1''
          (Resolved \<lparr>StatusResponse.status = ''completed'', progress = 100, current_step = None,
        eta_seconds = None, error = None, result = Some \<lparr>premiere_url = ''p'', capcut_url = ''c'', clips_count = 3, images_count = 4, expires_at = ''x''\<rparr>\<rparr>)]
     App_init =
   Some \<lparr>currentScreen = Download,
      jobData = Some \<lparr>jobId = ''j1'', status = ''completed'', progress = 100, currentStep = None,
        etaSeconds = None, error = None, result = Some \<lparr>premiere_url = ''p'', capcut_url = ''c'', clips_count = 3, images_count = 4, expires_at = ''x''\<rparr>\<rparr>,
      error = [], intervals = [], nextHandle = 2, pending = []\<rparr> \<and>
   DownloadScreen ''j1'' ''p'' ''c'' 3 4 ''x'' \<in>
     set (render \<lparr>currentScreen = Download,
      jobData = Some \<lparr>jobId = ''j1'', status = ''completed'', progress = 100, currentStep = None,
        etaSeconds = None, error = None, result = Some \<lparr>premiere_url = ''p'', capcut_url = ''c'', clips_count = 3, images_count = 4, expires_at = ''x''\<rparr>\<rparr>,
      error = [], intervals = [], nextHandle = 2, pending = []\<rparr>) \<and>
   list_all keeps_polling
     [Rejected None, Resolved \<lparr>StatusResponse.status = ''processing'', progress = 30, current_step = Some ''Cutting'',
        eta_seconds = None, error = None, result = None\<rparr>] \<and>
   map_option currentScreen
     (run (ticks 1 ''j1''
        (take 1 [Rejected None, Resolved \<lparr>StatusResponse.status = ''processing'', progress = 30, current_step = Some ''Cutting'',
        eta_seconds = None, error = None, result = None\<rparr>]))
        (handleInputSubmit ''s'' ''6-9'' ''t'' (Resolved ''j1'') App_init)) = Some Progress \<and>
   map_option currentScreen
     (run (ticks 1 ''j1''
        ([Rejected None, Resolved \<lparr>StatusResponse.status = ''processing'', progress = 30, current_step = Some ''Cutting'',
        eta_seconds = None, error = None, result = None\<rparr>] @
         [Resolved \<lparr>StatusResponse.status = ''completed'', progress = 100, current_step = None,
        eta_seconds = None, error = None, result = Some \<lparr>premiere_url = ''p'', capcut_url = ''c'', clips_count = 3, images_count = 4, expires_at = ''x''\<rparr>\<rparr>]))
        (handleInputSubmit ''s'' ''6-9'' ''t'' (Resolved ''j1'') App_init)) = Some Download"
  using download_reached
    [where es = "[Submit ''s'' ''6-9'' ''t'', GenerateVideoSettles ''s'' (Num 450) ''t'' (Resolved ''j1''),
        IntervalFires 1,
        CheckStatusSettles 1 ''j1''
          (Resolved \<lparr>StatusResponse.status = ''completed'', progress = 100, current_step = None,
        eta_seconds = None, error = None, result = Some \<lparr>premiere_url = ''p'', capcut_url = ''c'', clips_count = 3, images_count = 4, expires_at = ''x''\<rparr>\<rparr>)]"
      and st = "\<lparr>currentScreen = Download,
      jobData = Some \<lparr>jobId = ''j1'', status = ''completed'', progress = 100, currentStep = None,
        etaSeconds = None, error = None, result = Some \<lparr>premiere_url = ''p'', capcut_url = ''c'', clips_count = 3, images_count = 4, expires_at = ''x''\<rparr>\<rparr>,
      error = [], intervals = [], nextHandle = 2, pending = []\<rparr>"
      and a = "''j1''" and b = "''p''" and c = "''c''" and d = 3 and e = 4 and f = "''x''"
      and outs = "[Rejected None, Resolved \<lparr>StatusResponse.status = ''processing'', progress = 30, current_step = Some ''Cutting'',
        eta_seconds = None, error = None, result = None\<rparr>]"
      and r = "\<lparr>StatusResponse.status = ''completed'', progress = 100, current_step = None,
        eta_seconds = None, error = None, result = Some \<lparr>premiere_url = ''p'', capcut_url = ''c'', clips_count = 3, images_count = 4, expires_at = ''x''\<rparr>\<rparr>"
      and ?st0.0 = App_init and j = "''j1''" and script = "''s''" and duration = "''6-9''"
      and title = "''t''"]
  by (simp add: eval_defs)

text \<open>
  Two ticks overlap: the second fetch settles first with \<open>'completed'\<close>, the user starts over, and then the first fetch settles. Its response is applied after the reset: the job record is no longer \<open>null\<close> on the input screen.
\<close>

theorem tick_after_reset:
  "run [Submit ''s'' ''6-9'' ''t'', GenerateVideoSettles ''s'' (Num 450) ''t'' (Resolved ''j1''),
        IntervalFires 1, IntervalFires 1,
        CheckStatusSettles 1 ''j1''
          (Resolved \<lparr>StatusResponse.status = ''completed'', progress = 100, current_step = None,
        eta_seconds = None, error = None, result = Some \<lparr>premiere_url = ''p'', capcut_url = ''c'', clips_count = 3, images_count = 4, expires_at = ''x''\<rparr>\<rparr>),
        CreateNew]
     App_init =
   Some \<lparr>currentScreen = Input,
      jobData = None,
      error = [], intervals = [], nextHandle = 2, pending = [CheckStatus 1 ''j1'']\<rparr> \<and>
   run [Submit ''s'' ''6-9'' ''t'', GenerateVideoSettles ''s'' (Num 450) ''t'' (Resolved ''j1''),
        IntervalFires 1, IntervalFires 1,
        CheckStatusSettles 1 ''j1''
          (Resolved \<lparr>StatusResponse.status = ''completed'', progress = 100, current_step = None,
        eta_seconds = None, error = None, result = Some \<lparr>premiere_url = ''p'', capcut_url = ''c'', clips_count = 3, images_count = 4, expires_at = ''x''\<rparr>\<rparr>),
        CreateNew,
        CheckStatusSettles 1 ''j1''
          (Resolved \<lparr>StatusResponse.status = ''processing'', progress = 30, current_step = Some ''Cutting'',
        eta_seconds = None, error = None, result = None\<rparr>)]
     App_init =
   Some \<lparr>currentScreen = Input,
      jobData = Some \<lparr>jobId = ''j1'', status = ''processing'', progress = 30, currentStep = Some ''Cutting'',
        etaSeconds = None, error = None, result = None\<rparr>,
      error = [], intervals = [], nextHandle = 2, pending = []\<rparr>"
  by (simp add: eval_defs)

text \<open>
  A reset on the download screen with no timer live and no fetch in flight, followed by a new submission: the first session's timer does not fire and none of its fetches settles.
\<close>

theorem handleCreateNew_reset_witness:
  "intervals \<lparr>currentScreen = Download,
      jobData = Some \<lparr>jobId = ''j1'', status = ''completed'', progress = 100, currentStep = None,
        etaSeconds = None, error = None, result = Some \<lparr>premiere_url = ''p'', capcut_url = ''c'', clips_count = 3, images_count = 4, expires_at = ''x''\<rparr>\<rparr>,
      error = [], intervals = [], nextHandle = 2, pending = []\<rparr> = [] \<and>
   fetches \<lparr>currentScreen = Download,
      jobData = Some \<lparr>jobId = ''j1'', status = ''completed'', progress = 100, currentStep = None,
        etaSeconds = None, error = None, result = Some \<lparr>premiere_url = ''p'', capcut_url = ''c'', clips_count = 3, images_count = 4, expires_at = ''x''\<rparr>\<rparr>,
      error = [], intervals = [], nextHandle = 2, pending = []\<rparr> = [] \<and>
   run [Submit ''s2'' ''10-12'' []]
     (handleCreateNew \<lparr>currentScreen = Download,
      jobData = Some \<lparr>jobId = ''j1'', status = ''completed'', progress = 100, currentStep = None,
        etaSeconds = None, error = None, result = Some \<lparr>premiere_url = ''p'', capcut_url = ''c'', clips_count = 3, images_count = 4, expires_at = ''x''\<rparr>\<rparr>,
      error = [], intervals = [], nextHandle = 2, pending = []\<rparr>) =
   Some \<lparr>currentScreen = Input,
      jobData = None,
      error = [], intervals = [], nextHandle = 2, pending = [GenerateVideo ''s2'' (Num 660) ''Untitled Video'']\<rparr> \<and>
   step (IntervalFires 1)
     \<lparr>currentScreen = Input,
      jobData = None,
      error = [], intervals = [], nextHandle = 2, pending = [GenerateVideo ''s2'' (Num 660) ''Untitled Video'']\<rparr> = None \<and>
   step (CheckStatusSettles 1 ''j1'' (Rejected None))
     \<lparr>currentScreen = Input,
      jobData = None,
      error = [], intervals = [], nextHandle = 2, pending = [GenerateVideo ''s2'' (Num 660) ''Untitled Video'']\<rparr> = None"
  using handleCreateNew_reset
    [of "\<lparr>currentScreen = Download,
      jobData = Some \<lparr>jobId = ''j1'', status = ''completed'', progress = 100, currentStep = None,
        etaSeconds = None, error = None, result = Some \<lparr>premiere_url = ''p'', capcut_url = ''c'', clips_count = 3, images_count = 4, expires_at = ''x''\<rparr>\<rparr>,
      error = [], intervals = [], nextHandle = 2, pending = []\<rparr>"]
  by (simp add: eval_defs)

text \<open>
  The response \<open>{status: 'failed', error: 'X'}\<close> on the timer 1.
\<close>

theorem pollTick_failed_witness:
  "step (IntervalFires 1)
     (pollTick 1 ''j1''
        (Resolved \<lparr>StatusResponse.status = ''failed'', progress = 10, current_step = None,
        eta_seconds = None, error = Some ''X'', result = None\<rparr>)
        \<lparr>currentScreen = Progress,
      jobData = None,
      error = [], intervals = [(1, ''j1'')], nextHandle = 2, pending = []\<rparr>) = None \<and>
   App.error
     (pollTick 1 ''j1''
        (Resolved \<lparr>StatusResponse.status = ''failed'', progress = 10, current_step = None,
        eta_seconds = None, error = Some ''X'', result = None\<rparr>)
        \<lparr>currentScreen = Progress,
      jobData = None,
      error = [], intervals = [(1, ''j1'')], nextHandle = 2, pending = []\<rparr>) = ''X'' \<and>
   currentScreen
     (pollTick 1 ''j1''
        (Resolved \<lparr>StatusResponse.status = ''failed'', progress = 10, current_step = None,
        eta_seconds = None, error = Some ''X'', result = None\<rparr>)
        \<lparr>currentScreen = Progress,
      jobData = None,
      error = [], intervals = [(1, ''j1'')], nextHandle = 2, pending = []\<rparr>) = Progress"
  using pollTick_failed
    [of "\<lparr>StatusResponse.status = ''failed'', progress = 10, current_step = None,
        eta_seconds = None, error = Some ''X'', result = None\<rparr>"
      1 "''j1''"
      "\<lparr>currentScreen = Progress,
      jobData = None,
      error = [], intervals = [(1, ''j1'')], nextHandle = 2, pending = []\<rparr>"]
  by simp

text \<open>
  Two rejected fetches, then a \<open>'processing'\<close> response.
\<close>

theorem transient_failures_then_processing_witness:
  "run (ticks 1 ''j1''
          (map Rejected [None, Some ''timeout''] @
           [Resolved \<lparr>StatusResponse.status = ''processing'', progress = 30, current_step = Some ''Cutting'',
        eta_seconds = None, error = None, result = None\<rparr>]))
     \<lparr>currentScreen = Progress,
      jobData = None,
      error = [], intervals = [(1, ''j1'')], nextHandle = 2, pending = []\<rparr> =
   Some \<lparr>currentScreen = Progress,
      jobData = Some \<lparr>jobId = ''j1'', status = ''processing'', progress = 30, currentStep = Some ''Cutting'',
        etaSeconds = None, error = None, result = None\<rparr>,
      error = [], intervals = [(1, ''j1'')], nextHandle = 2, pending = []\<rparr>"
  using transient_failures_then_processing
    [of "\<lparr>currentScreen = Progress,
      jobData = None,
      error = [], intervals = [(1, ''j1'')], nextHandle = 2, pending = []\<rparr>" 1 "''j1''"
      "\<lparr>StatusResponse.status = ''processing'', progress = 30, current_step = Some ''Cutting'',
        eta_seconds = None, error = None, result = None\<rparr>"
      "[None, Some ''timeout'']"]
  by simp

text \<open>
  The first tick after a submission: \<open>currentStep\<close> is replaced, \<open>jobId\<close> stays.
\<close>

theorem pollTick_replaces_jobData_witness:
  "run (ticks 1 ''j1''
          [Resolved \<lparr>StatusResponse.status = ''processing'', progress = 30, current_step = Some ''Cutting'',
        eta_seconds = None, error = None, result = None\<rparr>])
     (handleInputSubmit ''s'' ''6-9'' ''t'' (Resolved ''j1'') App_init) =
   Some \<lparr>currentScreen = Progress,
      jobData = Some \<lparr>jobId = ''j1'', status = ''processing'', progress = 30, currentStep = Some ''Cutting'',
        etaSeconds = None, error = None, result = None\<rparr>,
      error = [], intervals = [(1, ''j1'')], nextHandle = 2, pending = []\<rparr> \<and>
   map_option jobId
     (jobData \<lparr>currentScreen = Progress,
      jobData = Some \<lparr>jobId = ''j1'', status = ''processing'', progress = 30, currentStep = Some ''Cutting'',
        etaSeconds = None, error = None, result = None\<rparr>,
      error = [], intervals = [(1, ''j1'')], nextHandle = 2, pending = []\<rparr>) = Some ''j1''"
  using pollTick_replaces_jobData
    [where st = App_init and j = "''j1''" and script = "''s''" and duration = "''6-9''"
      and title = "''t''"
      and outs = "[Resolved \<lparr>StatusResponse.status = ''processing'', progress = 30, current_step = Some ''Cutting'',
        eta_seconds = None, error = None, result = None\<rparr>]"
      and st' = "\<lparr>currentScreen = Progress,
      jobData = Some \<lparr>jobId = ''j1'', status = ''processing'', progress = 30, currentStep = Some ''Cutting'',
        etaSeconds = None, error = None, result = None\<rparr>,
      error = [], intervals = [(1, ''j1'')], nextHandle = 2, pending = []\<rparr>"]
  by (simp add: eval_defs)

text \<open>
  The status \<open>'Completed'\<close>, with a capital, is not terminal: only the job record changes.
\<close>

theorem pollTick_other_status_witness:
  "pollTick 1 ''j1''
     (Resolved \<lparr>StatusResponse.status = ''Completed'', progress = 100, current_step = None,
        eta_seconds = None, error = None, result = None\<rparr>)
     \<lparr>currentScreen = Progress,
      jobData = None,
      error = [], intervals = [(1, ''j1'')], nextHandle = 2, pending = []\<rparr> =
   \<lparr>currentScreen = Progress,
      jobData = Some \<lparr>jobId = ''j1'', status = ''Completed'', progress = 100, currentStep = None,
        etaSeconds = None, error = None, result = None\<rparr>,
      error = [], intervals = [(1, ''j1'')], nextHandle = 2, pending = []\<rparr>"
  using pollTick_other_status
    [of "\<lparr>StatusResponse.status = ''Completed'', progress = 100, current_step = None,
        eta_seconds = None, error = None, result = None\<rparr>" 1 "''j1''"
      "\<lparr>currentScreen = Progress,
      jobData = None,
      error = [], intervals = [(1, ''j1'')], nextHandle = 2, pending = []\<rparr>"]
  by (simp add: pollTick_def)

text \<open>
  Two submissions from the input screen: the second is rejected while the first is still
  pending, then the first resolves. The first invocation succeeded, and the error message
  after it is the second one's.
\<close>

theorem error_survives_submission:
  "run [Submit ''a'' ''6-9'' ''t'', Submit ''b'' ''6-9'' ''t'',
        GenerateVideoSettles ''b'' (Num 450) ''t'' (Rejected (Some ''quota'')),
        GenerateVideoSettles ''a'' (Num 450) ''t'' (Resolved ''j1'')]
     App_init =
   Some \<lparr>currentScreen = Progress,
      jobData = Some \<lparr>jobId = ''j1'', status = ''queued'', progress = 0,
        currentStep = Some ''Starting...'', etaSeconds = None, error = None, result = None\<rparr>,
      error = ''quota'', intervals = [(1, ''j1'')], nextHandle = 2, pending = []\<rparr>"
  by (simp add: eval_defs)

text \<open>
  A submission with an empty title from the initial state, an error message written
  while its call was pending, and the same submission with nothing in between.
\<close>

theorem handleInputSubmit_success_witness:
  "step (Submit ''a'' ''6-9'' []) App_init =
     Some \<lparr>currentScreen = Input, jobData = None, error = [], intervals = [], nextHandle = 1,
        pending = [GenerateVideo ''a'' (Num 450) ''Untitled Video'']\<rparr> \<and>
   step (GenerateVideoSettles ''a'' (Num 450) ''Untitled Video'' (Resolved ''j1''))
     \<lparr>currentScreen = Input, jobData = None, error = ''quota'', intervals = [],
      nextHandle = 1, pending = [GenerateVideo ''a'' (Num 450) ''Untitled Video'']\<rparr> =
     Some \<lparr>currentScreen = Progress,
        jobData = Some \<lparr>jobId = ''j1'', status = ''queued'', progress = 0,
          currentStep = Some ''Starting...'', etaSeconds = None, error = None,
          result = None\<rparr>,
        error = ''quota'', intervals = [(1, ''j1'')], nextHandle = 2, pending = []\<rparr> \<and>
   currentScreen App_init = Input \<and>
   run [Submit ''a'' ''6-9'' [],
        GenerateVideoSettles ''a'' (Num 450) ''Untitled Video'' (Resolved ''j1'')] App_init =
     Some \<lparr>currentScreen = Progress,
        jobData = Some \<lparr>jobId = ''j1'', status = ''queued'', progress = 0,
          currentStep = Some ''Starting...'', etaSeconds = None, error = None,
          result = None\<rparr>,
        error = [], intervals = [(1, ''j1'')], nextHandle = 2, pending = []\<rparr>"
  using handleInputSubmit_success
    [where script = "''a''" and duration = "''6-9''" and title = "[]" and st = App_init
      and ?st1.0 = "\<lparr>currentScreen = Input, jobData = None, error = [], intervals = [],
        nextHandle = 1, pending = [GenerateVideo ''a'' (Num 450) ''Untitled Video'']\<rparr>"
      and seconds = "Num 450" and title' = "''Untitled Video''" and job_id = "''j1''"
      and s = "\<lparr>currentScreen = Input, jobData = None, error = ''quota'', intervals = [],
        nextHandle = 1, pending = [GenerateVideo ''a'' (Num 450) ''Untitled Video'']\<rparr>"
      and s' = "\<lparr>currentScreen = Progress,
        jobData = Some \<lparr>jobId = ''j1'', status = ''queued'', progress = 0,
          currentStep = Some ''Starting...'', etaSeconds = None, error = None,
          result = None\<rparr>,
        error = ''quota'', intervals = [(1, ''j1'')], nextHandle = 2, pending = []\<rparr>"
      and ?s0.0 = App_init]
  by (simp add: eval_defs)

end
